theory Spec2Isabelle
  imports Main "HOL-Library.Word"
begin

unbundle bit_operations_syntax

section \<open>Build parameters and constants (FlatHashMap.hpp)\<close>

text \<open>
  The container is a template over the key and value types and is compiled for one SIMD
  architecture. What the build fixes is collected in a record: whether the vectorised
  probing is compiled in (\<open>kUseSimd\<close>), the number of \<open>u8\<close> lanes of one
  \<open>xsimd::batch<u8, Arch>\<close>, the value of \<open>Math::SimdHighestArch::alignment()\<close> and
  the hash function \<open>eastl::hash<Key>\<close>, which returns a \<open>size_t\<close>. The model is
  of a 64-bit target, where the control fragment is \<open>hash >> 57\<close>.
\<close>

record 'k build =
  kUseSimd :: bool
  batchSize :: nat
  archAlignment :: nat
  hashOf :: "'k \<Rightarrow> 64 word"

text \<open>
  \<open>kControlAlignment = kUseSimd ? 1 : Math::SimdHighestArch::alignment()\<close> and
  \<open>kControlBufferPadding = kControlAlignment == 1 ? 0 : kControlAlignment\<close>, as written
  in the header.
\<close>

definition kControlAlignment :: "'k build \<Rightarrow> nat" where
  "kControlAlignment b = (if kUseSimd b then 1 else archAlignment b)"

definition kControlBufferPadding :: "'k build \<Rightarrow> nat" where
  "kControlBufferPadding b = (if kControlAlignment b = 1 then 0 else kControlAlignment b)"

definition kUnused :: "8 word" where
  "kUnused = 0x80"

definition kTombstone :: "8 word" where
  "kTombstone = 0x81"

definition kAvailableSlotFlag :: "8 word" where
  "kAvailableSlotFlag = push_bit 7 1"

text \<open>
  \<open>kMaxLoadFactor\<close> is the double \<open>0.7\<close> and the test in the source is
  \<open>double(m_count + 1) / double(m_capacity) > 0.7\<close>, with \<open>m_count + 1\<close> computed
  in \<open>size_t\<close>. For capacities below \<open>2^49\<close> the correctly rounded quotient
  lies above the double nearest to 0.7 exactly when the rational quotient lies above 7/10,
  so the test is written on naturals.
\<close>

definition wrap64 :: "nat \<Rightarrow> nat" where
  "wrap64 n = n mod 2 ^ 64"

definition loadFactorExceeded :: "nat \<Rightarrow> nat \<Rightarrow> bool" where
  "loadFactorExceeded count capacity = (7 * capacity < 10 * wrap64 (count + 1))"

text \<open>
  Modelled from the spec: \<open>Alignment::AlignUp\<close> is not among the sources; the spec
  says the capacity is "rounded up to batch alignment", that is to the next multiple.
\<close>

definition AlignUp :: "nat \<Rightarrow> nat \<Rightarrow> nat" where
  "AlignUp n a = ((n + a - 1) div a) * a"

text \<open>
  Modelled from the spec: \<open>BitUtils::GetLeastSignificantBit\<close> and
  \<open>BitUtils::BitMask\<close> are not among the sources. The spec's vectorised search keeps
  the matching lanes that come before the first empty lane, so the first is the index of the
  lowest set bit and the second the mask of that many low bits.
\<close>

fun lowestSetFrom :: "nat \<Rightarrow> nat \<Rightarrow> 64 word \<Rightarrow> nat" where
  "lowestSetFrom 0 i w = i"
| "lowestSetFrom (Suc n) i w = (if bit w i then i else lowestSetFrom n (Suc i) w)"

definition GetLeastSignificantBit :: "64 word \<Rightarrow> nat" where
  "GetLeastSignificantBit w = lowestSetFrom 64 0 w"

definition BitMask :: "nat \<Rightarrow> 64 word" where
  "BitMask n = push_bit n 1 - 1"

section \<open>The container state\<close>

text \<open>
  The two buffers are lists. A slot of the key-value buffer that was never constructed is
  \<open>None\<close>; \<open>Remove\<close> leaves the payload in place, so a tombstoned slot keeps its
  \<open>Some\<close>. The control buffer has \<open>capacity + kControlBufferPadding\<close> bytes. An
  iterator is the offset of the slot from \<open>begin()\<close>, and \<open>end()\<close> is the capacity.
\<close>

record ('k, 'v) FlatHashMap =
  m_capacity :: nat
  m_count :: nat
  m_kvpBuffer :: "('k \<times> 'v) option list"
  m_controlBuffer :: "8 word list"

text \<open>
  What the code can do other than return, as values: an integer division by zero, an
  access outside a buffer, the read of a slot that was never constructed, a failing
  \<open>KE_ASSERT\<close> (modelled as checked), the \<open>KE_ERROR("Unreachable code")\<close> at the end of
  \<open>FindAndAllocateSlot\<close>, and a run that does not end within the bound of its loop.
\<close>

datatype error =
    DivisionByZero
  | OutOfBounds
  | UninitialisedRead
  | AssertionFailed
  | UnreachableCode
  | FuelExhausted

definition emptyMap :: "('k, 'v) FlatHashMap" where
  "emptyMap = \<lparr> m_capacity = 0, m_count = 0, m_kvpBuffer = [], m_controlBuffer = [] \<rparr>"

definition endIt :: "('k, 'v) FlatHashMap \<Rightarrow> nat" where
  "endIt m = m_capacity m"

definition controlAt :: "('k, 'v) FlatHashMap \<Rightarrow> nat \<Rightarrow> error + 8 word" where
  "controlAt m i =
     (if i < length (m_controlBuffer m) then Inr (m_controlBuffer m ! i) else Inl OutOfBounds)"

definition kvpAt :: "('k, 'v) FlatHashMap \<Rightarrow> nat \<Rightarrow> error + ('k \<times> 'v)" where
  "kvpAt m i =
     (if i < length (m_kvpBuffer m)
      then (case m_kvpBuffer m ! i of None \<Rightarrow> Inl UninitialisedRead | Some kv \<Rightarrow> Inr kv)
      else Inl OutOfBounds)"

definition keyAt :: "('k, 'v) FlatHashMap \<Rightarrow> nat \<Rightarrow> error + 'k" where
  "keyAt m i = (case kvpAt m i of Inl e \<Rightarrow> Inl e | Inr kv \<Rightarrow> Inr (fst kv))"

definition setControl :: "('k, 'v) FlatHashMap \<Rightarrow> nat \<Rightarrow> 8 word \<Rightarrow> error + ('k, 'v) FlatHashMap" where
  "setControl m i c =
     (if i < length (m_controlBuffer m)
      then Inr (m\<lparr> m_controlBuffer := (m_controlBuffer m)[i := c] \<rparr>)
      else Inl OutOfBounds)"

definition construct_at :: "('k, 'v) FlatHashMap \<Rightarrow> nat \<Rightarrow> 'k \<times> 'v \<Rightarrow> error + ('k, 'v) FlatHashMap" where
  "construct_at m i kv =
     (if i < length (m_kvpBuffer m)
      then Inr (m\<lparr> m_kvpBuffer := (m_kvpBuffer m)[i := Some kv] \<rparr>)
      else Inl OutOfBounds)"

definition IsValidEntry :: "('k, 'v) FlatHashMap \<Rightarrow> nat \<Rightarrow> error + bool" where
  "IsValidEntry m it =
     (case controlAt m it of Inl e \<Rightarrow> Inl e | Inr c \<Rightarrow> Inr (c AND kAvailableSlotFlag = 0))"

text \<open>The control fragment \<open>hash >> 57\<close>, truncated to \<open>u8\<close>.\<close>

definition controlOf :: "64 word \<Rightarrow> 8 word" where
  "controlOf hash = ucast (drop_bit 57 hash)"

section \<open>Vectorised reads\<close>

text \<open>
  \<open>xsimd::load_unaligned(m_controlBuffer + probeIndex)\<close> reads the \<open>batchSize\<close>
  bytes at \<open>probeIndex\<close>, \<open>probeIndex + 1\<close>, ... into the lanes 0, 1, ...;
  a read that leaves the allocation is an error. \<open>mask()\<close> of a lane-wise comparison has
  bit \<open>i\<close> set when lane \<open>i\<close> compares true.
\<close>

fun readLanes :: "8 word list \<Rightarrow> nat \<Rightarrow> nat \<Rightarrow> 8 word list" where
  "readLanes bytes p 0 = []"
| "readLanes bytes p (Suc n) = bytes ! p # readLanes bytes (p + 1) n"

definition load_unaligned :: "'k build \<Rightarrow> ('k, 'v) FlatHashMap \<Rightarrow> nat \<Rightarrow> error + 8 word list" where
  "load_unaligned b m p =
     (if p + batchSize b \<le> length (m_controlBuffer m)
      then Inr (readLanes (m_controlBuffer m) p (batchSize b))
      else Inl OutOfBounds)"

fun laneMask :: "(8 word \<Rightarrow> bool) \<Rightarrow> 8 word list \<Rightarrow> 64 word" where
  "laneMask P [] = 0"
| "laneMask P (c # cs) = (if P c then 1 else 0) OR push_bit 1 (laneMask P cs)"

text \<open>
  The inner loop of the vectorised searches:
  \<^verbatim>\<open>while (matchMask != 0) { bitIndex = lsb(matchMask); offset += bitIndex;
     matchMask <<= bitIndex; if (kvp[probeIndex + offset].first == _key) return ...; }\<close>
  When bit 0 of the mask is set and the slot holds another key, the shift by zero leaves
  mask and offset as they are and the loop does not end, so the loop is given fuel. A
  shift by a positive amount moves the lowest set bit of a 64-bit mask upwards, so a run
  that ends does so within the 64 rounds the searches allow.
\<close>

fun matchLoop :: "nat \<Rightarrow> ('k, 'v) FlatHashMap \<Rightarrow> 'k \<Rightarrow> nat \<Rightarrow> 64 word \<Rightarrow> nat \<Rightarrow> error + nat option" where
  "matchLoop 0 m key probeIndex matchMask offset =
     (if matchMask = 0 then Inr None else Inl FuelExhausted)"
| "matchLoop (Suc fuel) m key probeIndex matchMask offset =
     (if matchMask = 0 then Inr None
      else case keyAt m (probeIndex + (offset + GetLeastSignificantBit matchMask)) of
             Inl e \<Rightarrow> Inl e
           | Inr k \<Rightarrow>
               if k = key then Inr (Some (probeIndex + (offset + GetLeastSignificantBit matchMask)))
               else matchLoop fuel m key probeIndex
                      (push_bit (GetLeastSignificantBit matchMask) matchMask)
                      (offset + GetLeastSignificantBit matchMask))"

definition matchBitmask :: "64 word \<Rightarrow> 64 word" where
  "matchBitmask unusedMask =
     (if unusedMask = 0 then NOT 0 else BitMask (GetLeastSignificantBit unusedMask))"

section \<open>Find and Remove (FlatHashMap.inl)\<close>

text \<open>
  The scalar loop. \<open>control\<close> is the reference \<open>u8& control = m_controlBuffer[probeIndex]\<close>
  bound before the loop; the loop body advances \<open>probeIndex\<close> only, so the byte the loop
  tests is the one read at the first index. The first argument counts the iterations left
  (\<open>m_capacity - i\<close>).
\<close>

fun Find_scalar_loop ::
  "('k, 'v) FlatHashMap \<Rightarrow> 'k \<Rightarrow> 8 word \<Rightarrow> 8 word \<Rightarrow> nat \<Rightarrow> nat \<Rightarrow> error + nat" where
  "Find_scalar_loop m key expectedControl control 0 probeIndex = Inr (endIt m)"
| "Find_scalar_loop m key expectedControl control (Suc n) probeIndex =
     (if control = kUnused then Inr (endIt m)
      else if control = expectedControl then
        (case keyAt m probeIndex of
           Inl e \<Rightarrow> Inl e
         | Inr k \<Rightarrow>
             if k = key then Inr probeIndex
             else Find_scalar_loop m key expectedControl control n
                    ((probeIndex + 1) mod m_capacity m))
      else Find_scalar_loop m key expectedControl control n
             ((probeIndex + 1) mod m_capacity m))"

text \<open>
  The vectorised loop; \<open>i\<close> and \<open>probeIndex\<close> advance by \<open>kControlAlignment\<close>. The
  first argument bounds the number of rounds by the capacity, which the loop does not
  exceed when the step is positive.
\<close>

fun Find_simd_loop ::
  "'k build \<Rightarrow> ('k, 'v) FlatHashMap \<Rightarrow> 'k \<Rightarrow> 8 word \<Rightarrow> nat \<Rightarrow> nat \<Rightarrow> nat \<Rightarrow> error + nat" where
  "Find_simd_loop b m key expectedControl 0 i probeIndex =
     (if i < m_capacity m then Inl FuelExhausted else Inr (endIt m))"
| "Find_simd_loop b m key expectedControl (Suc n) i probeIndex =
     (if \<not> i < m_capacity m then Inr (endIt m)
      else case load_unaligned b m probeIndex of
        Inl e \<Rightarrow> Inl e
      | Inr controlBatch \<Rightarrow>
          if laneMask (\<lambda>c. c = expectedControl) controlBatch = 0 then
            (if laneMask (\<lambda>c. c = kUnused) controlBatch \<noteq> 0 then Inr (endIt m)
             else Find_simd_loop b m key expectedControl n (i + kControlAlignment b)
                    ((probeIndex + kControlAlignment b) mod m_capacity m))
          else
            (case matchLoop 64 m key probeIndex
                    (laneMask (\<lambda>c. c = expectedControl) controlBatch
                       AND matchBitmask (laneMask (\<lambda>c. c = kUnused) controlBatch)) 0 of
               Inl e \<Rightarrow> Inl e
             | Inr (Some it) \<Rightarrow> Inr it
             | Inr None \<Rightarrow>
                 if laneMask (\<lambda>c. c = kUnused) controlBatch \<noteq> 0 then Inr (endIt m)
                 else Find_simd_loop b m key expectedControl n (i + kControlAlignment b)
                        ((probeIndex + kControlAlignment b) mod m_capacity m)))"

text \<open>
  \<open>Find\<close>: \<open>hash % m_capacity\<close> is computed before anything else; with a capacity of
  zero that is an integer division by zero.
\<close>

definition Find :: "'k build \<Rightarrow> ('k, 'v) FlatHashMap \<Rightarrow> 'k \<Rightarrow> error + nat" where
  "Find b m key =
     (if m_capacity m = 0 then Inl DivisionByZero
      else if \<not> kUseSimd b then
        (case controlAt m (unat (hashOf b key) mod m_capacity m) of
           Inl e \<Rightarrow> Inl e
         | Inr control \<Rightarrow>
             Find_scalar_loop m key (controlOf (hashOf b key)) control (m_capacity m)
               (unat (hashOf b key) mod m_capacity m))
      else Find_simd_loop b m key (controlOf (hashOf b key)) (m_capacity m) 0
             (unat (hashOf b key) mod m_capacity m))"

text \<open>\<open>Remove\<close>: \<open>--m_count\<close> is a \<open>size_t\<close> decrement.\<close>

definition Remove :: "'k build \<Rightarrow> ('k, 'v) FlatHashMap \<Rightarrow> 'k \<Rightarrow> error + (('k, 'v) FlatHashMap \<times> bool)" where
  "Remove b m key =
     (case Find b m key of
        Inl e \<Rightarrow> Inl e
      | Inr it \<Rightarrow>
          if it \<noteq> endIt m then
            (case setControl (m\<lparr> m_count := wrap64 (m_count m + 2 ^ 64 - 1) \<rparr>) it kTombstone of
               Inl e \<Rightarrow> Inl e
             | Inr m' \<Rightarrow> Inr (m', True))
          else Inr (m, False))"

section \<open>Slot search with allocation (FindAndAllocateSlot)\<close>

text \<open>
  Claiming a slot: \<open>m_controlBuffer[index] = control; ++m_count;\<close>. In the vectorised
  stable search the write is preceded by \<open>KE_ASSERT(firstAvailableIndex < m_capacity)\<close>.
\<close>

definition claimSlot ::
  "('k, 'v) FlatHashMap \<Rightarrow> nat \<Rightarrow> 8 word \<Rightarrow> error + (('k, 'v) FlatHashMap \<times> nat \<times> bool)" where
  "claimSlot m index control =
     (case setControl m index control of
        Inl e \<Rightarrow> Inl e
      | Inr m' \<Rightarrow> Inr (m'\<lparr> m_count := wrap64 (m_count m' + 1) \<rparr>, index, True))"

definition claimAsserted ::
  "('k, 'v) FlatHashMap \<Rightarrow> nat \<Rightarrow> 8 word \<Rightarrow> error + (('k, 'v) FlatHashMap \<times> nat \<times> bool)" where
  "claimAsserted m firstAvailableIndex control =
     (if firstAvailableIndex < m_capacity m then claimSlot m firstAvailableIndex control
      else Inl AssertionFailed)"

text \<open>
  The scalar loop, for both values of the template parameter \<open>Fast\<close>. The control byte
  is read afresh in every round. Falling out of the loop reaches
  \<open>KE_ERROR("Unreachable code")\<close>.
\<close>

fun FindAndAllocateSlot_scalar_loop ::
  "bool \<Rightarrow> ('k, 'v) FlatHashMap \<Rightarrow> 'k \<Rightarrow> 8 word \<Rightarrow> nat \<Rightarrow> nat
     \<Rightarrow> error + (('k, 'v) FlatHashMap \<times> nat \<times> bool)" where
  "FindAndAllocateSlot_scalar_loop fast m key control 0 probeIndex = Inl UnreachableCode"
| "FindAndAllocateSlot_scalar_loop fast m key control (Suc n) probeIndex =
     (case controlAt m probeIndex of
        Inl e \<Rightarrow> Inl e
      | Inr controlSlot \<Rightarrow>
          if \<not> fast \<and> controlSlot = control then
            (case keyAt m probeIndex of
               Inl e \<Rightarrow> Inl e
             | Inr k \<Rightarrow>
                 if k = key then Inr (m, probeIndex, False)
                 else if controlSlot AND kAvailableSlotFlag \<noteq> 0 then claimSlot m probeIndex control
                 else FindAndAllocateSlot_scalar_loop fast m key control n
                        ((probeIndex + 1) mod m_capacity m))
          else if controlSlot AND kAvailableSlotFlag \<noteq> 0 then claimSlot m probeIndex control
          else FindAndAllocateSlot_scalar_loop fast m key control n
                 ((probeIndex + 1) mod m_capacity m))"

text \<open>The vectorised loop for \<open>Fast = true\<close>.\<close>

fun FindAndAllocateSlot_simd_fast_loop ::
  "'k build \<Rightarrow> ('k, 'v) FlatHashMap \<Rightarrow> 8 word \<Rightarrow> nat \<Rightarrow> nat \<Rightarrow> nat
     \<Rightarrow> error + (('k, 'v) FlatHashMap \<times> nat \<times> bool)" where
  "FindAndAllocateSlot_simd_fast_loop b m control 0 i probeIndex =
     (if i < m_capacity m then Inl FuelExhausted else Inl UnreachableCode)"
| "FindAndAllocateSlot_simd_fast_loop b m control (Suc n) i probeIndex =
     (if \<not> i < m_capacity m then Inl UnreachableCode
      else case load_unaligned b m probeIndex of
        Inl e \<Rightarrow> Inl e
      | Inr controlBatch \<Rightarrow>
          if laneMask (\<lambda>c. c AND kAvailableSlotFlag = kAvailableSlotFlag) controlBatch \<noteq> 0
             \<and> GetLeastSignificantBit
                 (laneMask (\<lambda>c. c AND kAvailableSlotFlag = kAvailableSlotFlag) controlBatch)
               + probeIndex < m_capacity m
          then claimSlot m
                 (probeIndex + GetLeastSignificantBit
                    (laneMask (\<lambda>c. c AND kAvailableSlotFlag = kAvailableSlotFlag) controlBatch))
                 control
          else FindAndAllocateSlot_simd_fast_loop b m control n (i + kControlAlignment b)
                 ((probeIndex + kControlAlignment b) mod m_capacity m))"

text \<open>
  The vectorised loop for \<open>Fast = false\<close>. \<open>firstAvailableIndex\<close> starts at the
  capacity and is set, while it is not below the capacity, from the first batch with an
  available lane.
\<close>

definition nextFirstAvailable :: "('k, 'v) FlatHashMap \<Rightarrow> nat \<Rightarrow> 8 word list \<Rightarrow> nat \<Rightarrow> nat" where
  "nextFirstAvailable m probeIndex controlBatch firstAvailableIndex =
     (if firstAvailableIndex \<ge> m_capacity m
         \<and> laneMask (\<lambda>c. c AND kAvailableSlotFlag = kAvailableSlotFlag) controlBatch \<noteq> 0
      then probeIndex + GetLeastSignificantBit
             (laneMask (\<lambda>c. c AND kAvailableSlotFlag = kAvailableSlotFlag) controlBatch)
      else firstAvailableIndex)"

fun FindAndAllocateSlot_simd_loop ::
  "'k build \<Rightarrow> ('k, 'v) FlatHashMap \<Rightarrow> 'k \<Rightarrow> 8 word \<Rightarrow> nat \<Rightarrow> nat \<Rightarrow> nat \<Rightarrow> nat
     \<Rightarrow> error + (('k, 'v) FlatHashMap \<times> nat \<times> bool)" where
  "FindAndAllocateSlot_simd_loop b m key control 0 i probeIndex firstAvailableIndex =
     (if i < m_capacity m then Inl FuelExhausted else Inl UnreachableCode)"
| "FindAndAllocateSlot_simd_loop b m key control (Suc n) i probeIndex firstAvailableIndex =
     (if \<not> i < m_capacity m then Inl UnreachableCode
      else case load_unaligned b m probeIndex of
        Inl e \<Rightarrow> Inl e
      | Inr controlBatch \<Rightarrow>
          if laneMask (\<lambda>c. c = control) controlBatch = 0 then
            (if laneMask (\<lambda>c. c = kUnused) controlBatch \<noteq> 0
             then claimAsserted m
                    (nextFirstAvailable m probeIndex controlBatch firstAvailableIndex) control
             else FindAndAllocateSlot_simd_loop b m key control n (i + kControlAlignment b)
                    ((probeIndex + kControlAlignment b) mod m_capacity m)
                    (nextFirstAvailable m probeIndex controlBatch firstAvailableIndex))
          else
            (case matchLoop 64 m key probeIndex
                    (laneMask (\<lambda>c. c = control) controlBatch
                       AND matchBitmask (laneMask (\<lambda>c. c = kUnused) controlBatch)) 0 of
               Inl e \<Rightarrow> Inl e
             | Inr (Some it) \<Rightarrow> Inr (m, it, False)
             | Inr None \<Rightarrow>
                 if laneMask (\<lambda>c. c = kUnused) controlBatch \<noteq> 0
                 then claimAsserted m
                        (nextFirstAvailable m probeIndex controlBatch firstAvailableIndex) control
                 else FindAndAllocateSlot_simd_loop b m key control n (i + kControlAlignment b)
                        ((probeIndex + kControlAlignment b) mod m_capacity m)
                        (nextFirstAvailable m probeIndex controlBatch firstAvailableIndex)))"

text \<open>
  The search proper, on the map as it is after the load-factor check. The assertion
  \<open>KE_ASSERT((control & kAvailableSlotFlag) == 0)\<close> comes before \<open>hash % m_capacity\<close>.
\<close>

definition probeAndAllocate ::
  "'k build \<Rightarrow> bool \<Rightarrow> ('k, 'v) FlatHashMap \<Rightarrow> 'k
     \<Rightarrow> error + (('k, 'v) FlatHashMap \<times> nat \<times> bool)" where
  "probeAndAllocate b fast m key =
     (if controlOf (hashOf b key) AND kAvailableSlotFlag \<noteq> 0 then Inl AssertionFailed
      else if m_capacity m = 0 then Inl DivisionByZero
      else if kUseSimd b then
        (if fast then
           FindAndAllocateSlot_simd_fast_loop b m (controlOf (hashOf b key)) (m_capacity m) 0
             (unat (hashOf b key) mod m_capacity m)
         else
           FindAndAllocateSlot_simd_loop b m key (controlOf (hashOf b key)) (m_capacity m) 0
             (unat (hashOf b key) mod m_capacity m) (m_capacity m))
      else
        FindAndAllocateSlot_scalar_loop fast m key (controlOf (hashOf b key)) (m_capacity m)
          (unat (hashOf b key) mod m_capacity m))"

section \<open>Growth, insertion and defragmentation\<close>

text \<open>
  The first branch of \<open>Grow\<close> (capacity zero): both buffers are allocated and the control
  bytes set to \<open>kUnused\<close>. The constructor calls it when the requested capacity is
  positive.
\<close>

definition GrowInitial :: "'k build \<Rightarrow> ('k, 'v) FlatHashMap \<Rightarrow> nat \<Rightarrow> ('k, 'v) FlatHashMap" where
  "GrowInitial b m newCapacity =
     m\<lparr> m_kvpBuffer := replicate (AlignUp newCapacity (kControlAlignment b)) None,
        m_controlBuffer :=
          replicate (AlignUp newCapacity (kControlAlignment b) + kControlBufferPadding b) kUnused,
        m_count := 0,
        m_capacity := AlignUp newCapacity (kControlAlignment b) \<rparr>"

definition construct :: "'k build \<Rightarrow> nat \<Rightarrow> ('k, 'v) FlatHashMap" where
  "construct b initialCapacity =
     (if initialCapacity > 0 then GrowInitial b emptyMap initialCapacity else emptyMap)"

text \<open>
  \<open>Grow\<close> and \<open>FindAndAllocateSlot\<close> call each other: the load-factor check of the
  search grows the map, and the rebuilding branch of \<open>Grow\<close> inserts into a temporary
  map with \<open>EmplaceUnstable\<close>, whose search may grow the temporary map in turn. The
  functions below take the growth function as an argument; \<open>Grow\<close> closes the recursion
  with a bound on the depth of nested rebuilds.
\<close>

type_synonym ('k, 'v) grower = "('k, 'v) FlatHashMap \<Rightarrow> nat \<Rightarrow> error + ('k, 'v) FlatHashMap"

definition FindAndAllocateSlot_with ::
  "('k, 'v) grower \<Rightarrow> 'k build \<Rightarrow> bool \<Rightarrow> ('k, 'v) FlatHashMap \<Rightarrow> 'k
     \<Rightarrow> error + (('k, 'v) FlatHashMap \<times> nat \<times> bool)" where
  "FindAndAllocateSlot_with grow b fast m key =
     (case (if m_capacity m = 0 then grow m 32
            else if loadFactorExceeded (m_count m) (m_capacity m)
                 then grow m (wrap64 (m_capacity m * 2))
                 else Inr m) of
        Inl e \<Rightarrow> Inl e
      | Inr m1 \<Rightarrow> probeAndAllocate b fast m1 key)"

text \<open>
  \<open>Insert\<close> and \<open>Emplace\<close> have the same body: the search, the assertion
  \<open>result.first != end()\<close>, and the placement of a copy of the pair when the slot is new.
\<close>

definition Insert_with ::
  "('k, 'v) grower \<Rightarrow> 'k build \<Rightarrow> ('k, 'v) FlatHashMap \<Rightarrow> 'k \<times> 'v
     \<Rightarrow> error + (('k, 'v) FlatHashMap \<times> nat \<times> bool)" where
  "Insert_with grow b m kvp =
     (case FindAndAllocateSlot_with grow b False m (fst kvp) of
        Inl e \<Rightarrow> Inl e
      | Inr (m', it, inserted) \<Rightarrow>
          if it = endIt m' then Inl AssertionFailed
          else if inserted then
            (case construct_at m' it kvp of Inl e \<Rightarrow> Inl e | Inr m'' \<Rightarrow> Inr (m'', it, True))
          else Inr (m', it, False))"

definition InsertUnstable_with ::
  "('k, 'v) grower \<Rightarrow> 'k build \<Rightarrow> ('k, 'v) FlatHashMap \<Rightarrow> 'k \<times> 'v
     \<Rightarrow> error + (('k, 'v) FlatHashMap \<times> nat)" where
  "InsertUnstable_with grow b m kvp =
     (case FindAndAllocateSlot_with grow b True m (fst kvp) of
        Inl e \<Rightarrow> Inl e
      | Inr (m', it, inserted) \<Rightarrow>
          if it \<noteq> endIt m' \<and> inserted then
            (case construct_at m' it kvp of Inl e \<Rightarrow> Inl e | Inr m'' \<Rightarrow> Inr (m'', it))
          else Inl AssertionFailed)"

text \<open>
  The loop that moves the occupied slots \<open>i, i + 1, ...\<close> of \<open>m\<close> into \<open>temp\<close>, for
  \<open>n\<close> rounds. \<open>Grow\<close> runs it with \<open>for (auto i = 0; i < m_count; ++i)\<close> and
  \<open>Defragment\<close> from \<open>begin()\<close> to \<open>end()\<close>.
\<close>

fun moveEntries ::
  "('k, 'v) grower \<Rightarrow> 'k build \<Rightarrow> ('k, 'v) FlatHashMap \<Rightarrow> nat \<Rightarrow> nat \<Rightarrow> ('k, 'v) FlatHashMap
     \<Rightarrow> error + ('k, 'v) FlatHashMap" where
  "moveEntries grow b m 0 i temp = Inr temp"
| "moveEntries grow b m (Suc n) i temp =
     (case IsValidEntry m i of
        Inl e \<Rightarrow> Inl e
      | Inr valid \<Rightarrow>
          if \<not> valid then moveEntries grow b m n (Suc i) temp
          else (case kvpAt m i of
                  Inl e \<Rightarrow> Inl e
                | Inr kvp \<Rightarrow>
                    (case InsertUnstable_with grow b temp kvp of
                       Inl e \<Rightarrow> Inl e
                     | Inr (temp', it) \<Rightarrow> moveEntries grow b m n (Suc i) temp')))"

primrec Grow :: "nat \<Rightarrow> 'k build \<Rightarrow> ('k, 'v) grower" where
  "Grow 0 b m newCapacity =
     (if m_capacity m = 0 then Inr (GrowInitial b m newCapacity) else Inl FuelExhausted)"
| "Grow (Suc depth) b m newCapacity =
     (if m_capacity m = 0 then Inr (GrowInitial b m newCapacity)
      else moveEntries (Grow depth b) b m (m_count m) 0 (construct b newCapacity))"

definition FindAndAllocateSlot ::
  "nat \<Rightarrow> 'k build \<Rightarrow> bool \<Rightarrow> ('k, 'v) FlatHashMap \<Rightarrow> 'k
     \<Rightarrow> error + (('k, 'v) FlatHashMap \<times> nat \<times> bool)" where
  "FindAndAllocateSlot depth b fast m key = FindAndAllocateSlot_with (Grow depth b) b fast m key"

definition Insert ::
  "nat \<Rightarrow> 'k build \<Rightarrow> ('k, 'v) FlatHashMap \<Rightarrow> 'k \<times> 'v
     \<Rightarrow> error + (('k, 'v) FlatHashMap \<times> nat \<times> bool)" where
  "Insert depth b m kvp = Insert_with (Grow depth b) b m kvp"

definition InsertUnstable ::
  "nat \<Rightarrow> 'k build \<Rightarrow> ('k, 'v) FlatHashMap \<Rightarrow> 'k \<times> 'v \<Rightarrow> error + (('k, 'v) FlatHashMap \<times> nat)" where
  "InsertUnstable depth b m kvp = InsertUnstable_with (Grow depth b) b m kvp"

definition Defragment :: "nat \<Rightarrow> 'k build \<Rightarrow> ('k, 'v) FlatHashMap \<Rightarrow> error + ('k, 'v) FlatHashMap" where
  "Defragment depth b m =
     (if m_capacity m = 0 then Inr m
      else moveEntries (Grow depth b) b m (m_capacity m) 0 (construct b (m_capacity m)))"

section \<open>Observations\<close>

text \<open>
  The key-value pairs of the map: what an iteration from \<open>begin()\<close> to \<open>end()\<close>
  that tests \<open>IsValidEntry\<close> before reading a slot sees, in slot order.
\<close>

fun collectEntries :: "('k, 'v) FlatHashMap \<Rightarrow> nat \<Rightarrow> nat \<Rightarrow> ('k \<times> 'v) list" where
  "collectEntries m it 0 = []"
| "collectEntries m it (Suc n) =
     (case IsValidEntry m it of
        Inr True \<Rightarrow> (case kvpAt m it of Inr kv \<Rightarrow> [kv] | Inl e \<Rightarrow> [])
      | Inr False \<Rightarrow> []
      | Inl e \<Rightarrow> [])
     @ collectEntries m (it + 1) n"

definition entries :: "('k, 'v) FlatHashMap \<Rightarrow> ('k \<times> 'v) list" where
  "entries m = collectEntries m 0 (m_capacity m)"

text \<open>Running a sequence of operations; the run stops at the first error.\<close>

datatype ('k, 'v) operation =
    OpFind 'k
  | OpInsert 'k 'v
  | OpInsertUnstable 'k 'v
  | OpRemove 'k

datatype outcome = Iterator nat | IteratorInserted nat bool | Removed bool

fun runOps ::
  "nat \<Rightarrow> 'k build \<Rightarrow> ('k, 'v) FlatHashMap \<Rightarrow> ('k, 'v) operation list
     \<Rightarrow> error + (('k, 'v) FlatHashMap \<times> outcome list)" where
  "runOps depth b m [] = Inr (m, [])"
| "runOps depth b m (OpFind k # ops) =
     (case Find b m k of
        Inl e \<Rightarrow> Inl e
      | Inr it \<Rightarrow>
          (case runOps depth b m ops of
             Inl e \<Rightarrow> Inl e
           | Inr (m', rs) \<Rightarrow> Inr (m', Iterator it # rs)))"
| "runOps depth b m (OpInsert k v # ops) =
     (case Insert depth b m (k, v) of
        Inl e \<Rightarrow> Inl e
      | Inr (m1, it, inserted) \<Rightarrow>
          (case runOps depth b m1 ops of
             Inl e \<Rightarrow> Inl e
           | Inr (m', rs) \<Rightarrow> Inr (m', IteratorInserted it inserted # rs)))"
| "runOps depth b m (OpInsertUnstable k v # ops) =
     (case InsertUnstable depth b m (k, v) of
        Inl e \<Rightarrow> Inl e
      | Inr (m1, it) \<Rightarrow>
          (case runOps depth b m1 ops of
             Inl e \<Rightarrow> Inl e
           | Inr (m', rs) \<Rightarrow> Inr (m', Iterator it # rs)))"
| "runOps depth b m (OpRemove k # ops) =
     (case Remove b m k of
        Inl e \<Rightarrow> Inl e
      | Inr (m1, removed) \<Rightarrow>
          (case runOps depth b m1 ops of
             Inl e \<Rightarrow> Inl e
           | Inr (m', rs) \<Rightarrow> Inr (m', Removed removed # rs)))"

text \<open>
  Two builds for 64-bit integer keys, whose \<open>eastl::hash\<close> is the conversion to
  \<open>size_t\<close>: a scalar one, as compiled for NEON (16-byte alignment), and a vectorised one
  with 16 lanes, as compiled for SSE.
\<close>

definition scalarBuild :: "(64 word) build" where
  "scalarBuild = \<lparr> kUseSimd = False, batchSize = 16, archAlignment = 16, hashOf = (\<lambda>k. k) \<rparr>"

definition simdBuild :: "(64 word) build" where
  "simdBuild = \<lparr> kUseSimd = True, batchSize = 16, archAlignment = 16, hashOf = (\<lambda>k. k) \<rparr>"

definition summary :: "('k, 'v) FlatHashMap \<Rightarrow> nat \<times> nat \<times> ('k \<times> 'v) list" where
  "summary m = (m_capacity m, m_count m, entries m)"

section \<open>The scalar search as the specification words it\<close>

text \<open>
  Section 4.2 of the specification, for comparison with \<open>Find\<close>: one control byte is
  inspected at a time, starting at the probe index and wrapping modulo the capacity; the
  search stops at the first empty control byte (a miss) or at a matching fragment whose
  slot's key compares equal (a hit).
\<close>

fun specScalarFind_loop :: "('k, 'v) FlatHashMap \<Rightarrow> 'k \<Rightarrow> 8 word \<Rightarrow> nat \<Rightarrow> nat \<Rightarrow> nat" where
  "specScalarFind_loop m key fragment 0 index = endIt m"
| "specScalarFind_loop m key fragment (Suc n) index =
     (if controlAt m index = Inr kUnused then endIt m
      else if controlAt m index = Inr fragment \<and> keyAt m index = Inr key then index
      else specScalarFind_loop m key fragment n ((index + 1) mod m_capacity m))"

definition specScalarFind :: "'k build \<Rightarrow> ('k, 'v) FlatHashMap \<Rightarrow> 'k \<Rightarrow> nat" where
  "specScalarFind b m key =
     specScalarFind_loop m key (controlOf (hashOf b key)) (m_capacity m)
       (unat (hashOf b key) mod m_capacity m)"

section \<open>Unfolding the loops at numeral bounds\<close>

text \<open>
  The loops recurse on a successor; these equations unfold them when the bound is a
  numeral, so that the runs below are computed by rewriting.
\<close>

lemma Find_scalar_loop_numeral:
  "Find_scalar_loop m key expectedControl control (numeral k) probeIndex =
     (if control = kUnused then Inr (endIt m)
      else if control = expectedControl then
        (case keyAt m probeIndex of
           Inl e \<Rightarrow> Inl e
         | Inr k' \<Rightarrow>
             if k' = key then Inr probeIndex
             else Find_scalar_loop m key expectedControl control (pred_numeral k)
                    ((probeIndex + 1) mod m_capacity m))
      else Find_scalar_loop m key expectedControl control (pred_numeral k)
             ((probeIndex + 1) mod m_capacity m))"
  by (simp only: numeral_eq_Suc Find_scalar_loop.simps)

lemma FindAndAllocateSlot_scalar_loop_numeral:
  "FindAndAllocateSlot_scalar_loop fast m key control (numeral k) probeIndex =
     (case controlAt m probeIndex of
        Inl e \<Rightarrow> Inl e
      | Inr controlSlot \<Rightarrow>
          if \<not> fast \<and> controlSlot = control then
            (case keyAt m probeIndex of
               Inl e \<Rightarrow> Inl e
             | Inr k' \<Rightarrow>
                 if k' = key then Inr (m, probeIndex, False)
                 else if controlSlot AND kAvailableSlotFlag \<noteq> 0 then claimSlot m probeIndex control
                 else FindAndAllocateSlot_scalar_loop fast m key control (pred_numeral k)
                        ((probeIndex + 1) mod m_capacity m))
          else if controlSlot AND kAvailableSlotFlag \<noteq> 0 then claimSlot m probeIndex control
          else FindAndAllocateSlot_scalar_loop fast m key control (pred_numeral k)
                 ((probeIndex + 1) mod m_capacity m))"
  by (simp only: numeral_eq_Suc FindAndAllocateSlot_scalar_loop.simps)

lemma moveEntries_numeral:
  "moveEntries grow b m (numeral k) i temp =
     (case IsValidEntry m i of
        Inl e \<Rightarrow> Inl e
      | Inr valid \<Rightarrow>
          if \<not> valid then moveEntries grow b m (pred_numeral k) (Suc i) temp
          else (case kvpAt m i of
                  Inl e \<Rightarrow> Inl e
                | Inr kvp \<Rightarrow>
                    (case InsertUnstable_with grow b temp kvp of
                       Inl e \<Rightarrow> Inl e
                     | Inr (temp', it) \<Rightarrow> moveEntries grow b m (pred_numeral k) (Suc i) temp')))"
  by (simp only: numeral_eq_Suc moveEntries.simps)

lemma collectEntries_numeral:
  "collectEntries m it (numeral k) =
     (case IsValidEntry m it of
        Inr True \<Rightarrow> (case kvpAt m it of Inr kv \<Rightarrow> [kv] | Inl e \<Rightarrow> [])
      | Inr False \<Rightarrow> []
      | Inl e \<Rightarrow> [])
     @ collectEntries m (it + 1) (pred_numeral k)"
  by (simp only: numeral_eq_Suc collectEntries.simps)

lemma readLanes_numeral:
  "readLanes bytes p (numeral k) = bytes ! p # readLanes bytes (p + 1) (pred_numeral k)"
  by (simp only: numeral_eq_Suc readLanes.simps)

lemma lowestSetFrom_numeral:
  "lowestSetFrom (numeral k) i w = (if bit w i then i else lowestSetFrom (pred_numeral k) (Suc i) w)"
  by (simp only: numeral_eq_Suc lowestSetFrom.simps)

lemma matchLoop_numeral:
  "matchLoop (numeral f) m key probeIndex matchMask offset =
     (if matchMask = 0 then Inr None
      else case keyAt m (probeIndex + (offset + GetLeastSignificantBit matchMask)) of
             Inl e \<Rightarrow> Inl e
           | Inr k \<Rightarrow>
               if k = key then Inr (Some (probeIndex + (offset + GetLeastSignificantBit matchMask)))
               else matchLoop (pred_numeral f) m key probeIndex
                      (push_bit (GetLeastSignificantBit matchMask) matchMask)
                      (offset + GetLeastSignificantBit matchMask))"
  by (simp only: numeral_eq_Suc matchLoop.simps)

lemma Find_simd_loop_numeral:
  "Find_simd_loop b m key expectedControl (numeral k) i probeIndex =
     (if \<not> i < m_capacity m then Inr (endIt m)
      else case load_unaligned b m probeIndex of
        Inl e \<Rightarrow> Inl e
      | Inr controlBatch \<Rightarrow>
          if laneMask (\<lambda>c. c = expectedControl) controlBatch = 0 then
            (if laneMask (\<lambda>c. c = kUnused) controlBatch \<noteq> 0 then Inr (endIt m)
             else Find_simd_loop b m key expectedControl (pred_numeral k) (i + kControlAlignment b)
                    ((probeIndex + kControlAlignment b) mod m_capacity m))
          else
            (case matchLoop 64 m key probeIndex
                    (laneMask (\<lambda>c. c = expectedControl) controlBatch
                       AND matchBitmask (laneMask (\<lambda>c. c = kUnused) controlBatch)) 0 of
               Inl e \<Rightarrow> Inl e
             | Inr (Some it) \<Rightarrow> Inr it
             | Inr None \<Rightarrow>
                 if laneMask (\<lambda>c. c = kUnused) controlBatch \<noteq> 0 then Inr (endIt m)
                 else Find_simd_loop b m key expectedControl (pred_numeral k) (i + kControlAlignment b)
                        ((probeIndex + kControlAlignment b) mod m_capacity m)))"
  by (simp only: numeral_eq_Suc Find_simd_loop.simps)

lemma FindAndAllocateSlot_simd_loop_numeral:
  "FindAndAllocateSlot_simd_loop b m key control (numeral k) i probeIndex firstAvailableIndex =
     (if \<not> i < m_capacity m then Inl UnreachableCode
      else case load_unaligned b m probeIndex of
        Inl e \<Rightarrow> Inl e
      | Inr controlBatch \<Rightarrow>
          if laneMask (\<lambda>c. c = control) controlBatch = 0 then
            (if laneMask (\<lambda>c. c = kUnused) controlBatch \<noteq> 0
             then claimAsserted m
                    (nextFirstAvailable m probeIndex controlBatch firstAvailableIndex) control
             else FindAndAllocateSlot_simd_loop b m key control (pred_numeral k) (i + kControlAlignment b)
                    ((probeIndex + kControlAlignment b) mod m_capacity m)
                    (nextFirstAvailable m probeIndex controlBatch firstAvailableIndex))
          else
            (case matchLoop 64 m key probeIndex
                    (laneMask (\<lambda>c. c = control) controlBatch
                       AND matchBitmask (laneMask (\<lambda>c. c = kUnused) controlBatch)) 0 of
               Inl e \<Rightarrow> Inl e
             | Inr (Some it) \<Rightarrow> Inr (m, it, False)
             | Inr None \<Rightarrow>
                 if laneMask (\<lambda>c. c = kUnused) controlBatch \<noteq> 0
                 then claimAsserted m
                        (nextFirstAvailable m probeIndex controlBatch firstAvailableIndex) control
                 else FindAndAllocateSlot_simd_loop b m key control (pred_numeral k) (i + kControlAlignment b)
                        ((probeIndex + kControlAlignment b) mod m_capacity m)
                        (nextFirstAvailable m probeIndex controlBatch firstAvailableIndex)))"
  by (simp only: numeral_eq_Suc FindAndAllocateSlot_simd_loop.simps)

lemma specScalarFind_loop_numeral:
  "specScalarFind_loop m key fragment (numeral k) index =
     (if controlAt m index = Inr kUnused then endIt m
      else if controlAt m index = Inr fragment \<and> keyAt m index = Inr key then index
      else specScalarFind_loop m key fragment (pred_numeral k) ((index + 1) mod m_capacity m))"
  by (simp only: numeral_eq_Suc specScalarFind_loop.simps)

lemmas scalar_run =
  Insert_def Insert_with_def FindAndAllocateSlot_with_def probeAndAllocate_def
  GrowInitial_def construct_def emptyMap_def AlignUp_def kControlAlignment_def
  kControlBufferPadding_def scalarBuild_def loadFactorExceeded_def wrap64_def controlOf_def
  controlAt_def kvpAt_def keyAt_def setControl_def construct_at_def claimSlot_def endIt_def
  Find_def Remove_def kUnused_def kTombstone_def kAvailableSlotFlag_def IsValidEntry_def
  InsertUnstable_def InsertUnstable_with_def Defragment_def entries_def summary_def
  Find_scalar_loop_numeral FindAndAllocateSlot_scalar_loop_numeral moveEntries_numeral
  collectEntries_numeral numeral_2_eq_2 [symmetric]

lemmas simd_run =
  simdBuild_def load_unaligned_def readLanes_numeral lowestSetFrom_numeral matchLoop_numeral
  Find_simd_loop_numeral FindAndAllocateSlot_simd_loop_numeral GetLeastSignificantBit_def
  BitMask_def matchBitmask_def nextFirstAvailable_def claimAsserted_def

section \<open>General facts\<close>

lemma AlignUp_ge: "0 < a \<Longrightarrow> n \<le> AlignUp n a"
proof -
  assume a: "0 < a"
  have "(n + a - 1) div a * a + (n + a - 1) mod a = n + a - 1"
    by simp
  moreover have "(n + a - 1) mod a < a"
    using a by simp
  ultimately show ?thesis
    unfolding AlignUp_def by linarith
qed

lemma bit_kAvailableSlotFlag: "bit kAvailableSlotFlag n \<longleftrightarrow> n = 7"
  unfolding kAvailableSlotFlag_def by (auto simp only: bit_push_bit_iff bit_1_iff possible_bit_word) simp_all

lemma controlOf_flag: "controlOf h AND kAvailableSlotFlag = 0"
proof (rule bit_eqI)
  fix n
  have "\<not> bit h (57 + 7)"
    using bit_imp_le_length [of h "57 + 7"] by auto
  then show "bit (controlOf h AND kAvailableSlotFlag) n \<longleftrightarrow> bit (0 :: 8 word) n"
    by (auto simp add: bit_and_iff bit_kAvailableSlotFlag controlOf_def bit_ucast_iff bit_drop_bit_eq)
qed

lemma controlOf_not_unused: "controlOf h \<noteq> kUnused"
proof
  assume "controlOf h = kUnused"
  then have "kUnused AND kAvailableSlotFlag = 0"
    using controlOf_flag [of h] by simp
  then show False by (simp add: kUnused_def kAvailableSlotFlag_def)
qed

lemma Grow_capacity_zero: "m_capacity m = 0 \<Longrightarrow> Grow depth b m n = Inr (GrowInitial b m n)"
  by (cases depth) simp_all

lemma claimSlot_no_div: "claimSlot m i c \<noteq> Inl DivisionByZero"
  by (simp add: claimSlot_def setControl_def)

lemma claimAsserted_no_div: "claimAsserted m i c \<noteq> Inl DivisionByZero"
  by (simp add: claimAsserted_def claimSlot_no_div)

lemma keyAt_no_div: "keyAt m i \<noteq> Inl DivisionByZero"
  by (simp add: keyAt_def kvpAt_def split: option.splits)

lemma controlAt_no_div: "controlAt m i \<noteq> Inl DivisionByZero"
  by (simp add: controlAt_def)

lemma load_unaligned_no_div: "load_unaligned b m p \<noteq> Inl DivisionByZero"
  by (simp add: load_unaligned_def)

lemma matchLoop_no_div: "matchLoop fuel m key p mm off \<noteq> Inl DivisionByZero"
proof (induction fuel arbitrary: mm off)
  case 0
  then show ?case by simp
next
  case (Suc fuel)
  then show ?case
    using keyAt_no_div [of m] by (auto split: sum.splits)
qed

lemma scalar_loop_no_div:
  "FindAndAllocateSlot_scalar_loop fast m key control n p \<noteq> Inl DivisionByZero"
proof (induction n arbitrary: p)
  case 0
  then show ?case by simp
next
  case (Suc n)
  then show ?case
    using keyAt_no_div [of m] controlAt_no_div [of m] claimSlot_no_div [of m]
    by (auto split: sum.splits)
qed

lemma simd_fast_loop_no_div:
  "FindAndAllocateSlot_simd_fast_loop b m control n i p \<noteq> Inl DivisionByZero"
proof (induction n arbitrary: i p)
  case 0
  then show ?case by simp
next
  case (Suc n)
  then show ?case
    using load_unaligned_no_div [of b m] claimSlot_no_div [of m]
    by (auto split: sum.splits)
qed

lemma simd_loop_no_div:
  "FindAndAllocateSlot_simd_loop b m key control n i p fa \<noteq> Inl DivisionByZero"
proof (induction n arbitrary: i p fa)
  case 0
  then show ?case by simp
next
  case (Suc n)
  then show ?case
    using load_unaligned_no_div [of b m] claimAsserted_no_div [of m] matchLoop_no_div [of _ m]
    by (auto split: sum.splits option.splits)
qed

lemma probeAndAllocate_no_div:
  "0 < m_capacity m \<Longrightarrow> probeAndAllocate b fast m key \<noteq> Inl DivisionByZero"
  by (simp add: probeAndAllocate_def scalar_loop_no_div simd_fast_loop_no_div simd_loop_no_div)

lemma GrowInitial_capacity: "m_capacity (GrowInitial b m n) = AlignUp n (kControlAlignment b)"
  by (simp add: GrowInitial_def)

lemma FindAndAllocateSlot_capacity_zero:
  "m_capacity m = 0 \<Longrightarrow>
     FindAndAllocateSlot depth b fast m key = probeAndAllocate b fast (GrowInitial b m 32) key"
  by (simp add: FindAndAllocateSlot_def FindAndAllocateSlot_with_def Grow_capacity_zero)

lemma Insert_capacity_zero_no_div:
  assumes "m_capacity m = 0" and "0 < kControlAlignment b"
  shows "Insert depth b m kvp \<noteq> Inl DivisionByZero"
proof -
  have "0 < m_capacity (GrowInitial b m 32)"
    using AlignUp_ge [OF assms(2), of 32] by (simp add: GrowInitial_capacity)
  then have "probeAndAllocate b False (GrowInitial b m 32) (fst kvp) \<noteq> Inl DivisionByZero"
    by (rule probeAndAllocate_no_div)
  then show ?thesis
    using assms(1)
    by (auto simp add: Insert_def Insert_with_def FindAndAllocateSlot_with_def Grow_capacity_zero
          construct_at_def split: sum.splits if_splits)
qed

lemma Insert_capacity_zero_scalar:
  assumes "m_capacity m = 0" and "\<not> kUseSimd b" and "0 < archAlignment b"
  shows "\<exists>m'. Insert depth b m (key, v)
           = Inr (m', unat (hashOf b key) mod AlignUp 32 (archAlignment b), True)
         \<and> m_capacity m' = AlignUp 32 (archAlignment b)
         \<and> kvpAt m' (unat (hashOf b key) mod AlignUp 32 (archAlignment b)) = Inr (key, v)
         \<and> m_count m' = 1"
proof -
  define cap where "cap = AlignUp 32 (archAlignment b)"
  define p where "p = unat (hashOf b key) mod cap"
  have cap: "32 \<le> cap"
    unfolding cap_def using AlignUp_ge [OF assms(3)] .
  then obtain n where n: "cap = Suc n"
    by (cases cap) simp_all
  have p: "p < cap"
    unfolding p_def using cap by simp
  define g where "g = GrowInitial b m 32"
  have gcap: "m_capacity g = cap"
    using assms(2) by (simp add: g_def GrowInitial_def cap_def kControlAlignment_def)
  have gctrl: "controlAt g p = Inr kUnused"
    using assms(2) p by (simp add: g_def GrowInitial_def cap_def kControlAlignment_def controlAt_def)
  have glen: "length (m_kvpBuffer g) = cap" "length (m_controlBuffer g) = cap + kControlBufferPadding b"
    using assms(2) by (simp_all add: g_def GrowInitial_def cap_def kControlAlignment_def)
  have flag: "kUnused AND kAvailableSlotFlag \<noteq> 0"
    by (simp add: kUnused_def kAvailableSlotFlag_def)
  have loop: "FindAndAllocateSlot_scalar_loop False g key (controlOf (hashOf b key)) cap p
      = claimSlot g p (controlOf (hashOf b key))"
    unfolding n using gctrl flag controlOf_not_unused [of "hashOf b key"]
    by (auto simp add: n)
  have probe: "probeAndAllocate b False g key = claimSlot g p (controlOf (hashOf b key))"
    using assms(2) cap loop
    by (simp add: probeAndAllocate_def controlOf_flag gcap p_def)
  define g1 where
    "g1 = g\<lparr> m_controlBuffer := (m_controlBuffer g)[p := controlOf (hashOf b key)], m_count := 1 \<rparr>"
  have gcount: "m_count g = 0"
    by (simp add: g_def GrowInitial_def)
  have claim: "claimSlot g p (controlOf (hashOf b key)) = Inr (g1, p, True)"
    using p glen gcount by (simp add: claimSlot_def setControl_def wrap64_def g1_def)
  have search: "FindAndAllocateSlot_with (Grow depth b) b False m key = Inr (g1, p, True)"
    using assms(1) probe claim
    by (simp add: FindAndAllocateSlot_with_def Grow_capacity_zero g_def)
  define g2 where "g2 = g1\<lparr> m_kvpBuffer := (m_kvpBuffer g1)[p := Some (key, v)] \<rparr>"
  have place: "construct_at g1 p (key, v) = Inr g2"
    using p glen by (simp add: construct_at_def g1_def g2_def)
  have notend: "p \<noteq> endIt g1"
    using p gcap by (simp add: endIt_def g1_def)
  have ins: "Insert depth b m (key, v) = Inr (g2, p, True)"
    using search place notend by (simp add: Insert_def Insert_with_def)
  have "m_capacity g2 = cap" "kvpAt g2 p = Inr (key, v)" "m_count g2 = 1"
    using p glen gcap by (simp_all add: g2_def g1_def kvpAt_def)
  with ins show ?thesis
    unfolding p_def cap_def by blast
qed

section \<open>The claims\<close>

text \<open>
  The runs below use the scalar build for NEON and the vectorised build for SSE, with
  64-bit integer keys hashed by the identity. Keys \<open>0\<close>, \<open>16\<close> and \<open>32\<close> share the
  control fragment 0; the key \<open>2^57\<close> has the fragment 1 and the probe index 0 in a table
  of 32 slots.
\<close>

text \<open>
  Claim C1: every growth keeps the set of key-value pairs and strictly increases the
  capacity. The code breaks the first half: the rebuilding loop of \<open>Grow\<close> runs
  \<open>for (auto i = 0; i < m_count; ++i)\<close>, over the first \<open>m_count\<close> slots instead of
  all \<open>m_capacity\<close> of them. A table of capacity 16 holding the keys 5 to 15 in the slots
  5 to 15 grows on the twelfth insertion; only the slots 0 to 10 are visited, and the keys
  11 to 15 are gone from the grown table of capacity 32.
\<close>

theorem Grow_drops_entries_beyond_count:
  "map_sum id (\<lambda>(m, rs). summary m)
     (runOps (Suc 0) scalarBuild (construct scalarBuild 16 :: (64 word, nat) FlatHashMap)
        [OpInsert 5 105, OpInsert 6 106, OpInsert 7 107, OpInsert 8 108, OpInsert 9 109,
         OpInsert 10 110, OpInsert 11 111, OpInsert 12 112, OpInsert 13 113, OpInsert 14 114,
         OpInsert 15 115])
   = Inr (16, 11, [(5, 105), (6, 106), (7, 107), (8, 108), (9, 109), (10, 110), (11, 111),
                   (12, 112), (13, 113), (14, 114), (15, 115)])
   \<and> map_sum id (\<lambda>(m, rs). summary m)
     (runOps (Suc 0) scalarBuild (construct scalarBuild 16 :: (64 word, nat) FlatHashMap)
        [OpInsert 5 105, OpInsert 6 106, OpInsert 7 107, OpInsert 8 108, OpInsert 9 109,
         OpInsert 10 110, OpInsert 11 111, OpInsert 12 112, OpInsert 13 113, OpInsert 14 114,
         OpInsert 15 115, OpInsert 0 100])
   = Inr (32, 7, [(0, 100), (5, 105), (6, 106), (7, 107), (8, 108), (9, 109), (10, 110)])"
  by (simp add: scalar_run)

text \<open>
  Claim C2: a key inserted by the stable path is found, with its value, until it is
  removed. The scalar \<open>Find\<close> breaks it: after inserting \<open>0\<close> and then \<open>2^57\<close>,
  which lands in slot 1 with fragment 1, \<open>Find(2^57)\<close> tests only the control byte of
  slot 0 (fragment 0) in every round and returns \<open>end()\<close>, the iterator 32, although the
  pair \<open>(2^57, 20)\<close> is in the table.
\<close>

theorem scalar_Find_misses_inserted_key:
  "map_sum id (\<lambda>(m, rs). (summary m, rs))
     (runOps (Suc 0) scalarBuild (emptyMap :: (64 word, nat) FlatHashMap)
        [OpInsert 0 10, OpInsert (push_bit 57 1) 20, OpFind (push_bit 57 1)])
   = Inr ((32, 2, [(0, 10), (push_bit 57 1, 20)]),
          [IteratorInserted 0 True, IteratorInserted 1 True, Iterator 32])"
  by (simp add: scalar_run)

text \<open>
  Claim C3: the scalar \<open>Find\<close> inspects the control byte of each probed slot in turn and
  stops at the first empty byte or at the first slot whose byte is the fragment and whose
  key is equal. The code reads the control byte through a reference bound before the loop,
  so it inspects the byte of the first slot only. After inserting \<open>0\<close> and \<open>32\<close> and
  removing \<open>32\<close>, slot 1 is a tombstone that still holds the pair of \<open>32\<close>: the search
  the claim describes ends at the empty slot 2 with \<open>end()\<close>, the code returns slot 1.
\<close>

theorem scalar_Find_differs_from_specified_search:
  "(case runOps (Suc 0) scalarBuild (emptyMap :: (64 word, nat) FlatHashMap)
          [OpInsert 0 10, OpInsert 32 20, OpRemove 32] of
      Inl e \<Rightarrow> None
    | Inr (m, rs) \<Rightarrow>
        Some (Find scalarBuild m 32, specScalarFind scalarBuild m 32, controlAt m 1, endIt m))
   = Some (Inr 1, 32, Inr kTombstone, 32)"
  by (simp add: scalar_run specScalarFind_def specScalarFind_loop_numeral)

text \<open>
  Claim C4: a stable insertion of a key that is present returns its slot with the flag
  "not inserted", also when a tombstone precedes that slot on the probe path. The scalar
  loop of \<open>FindAndAllocateSlot\<close> claims the first available slot it meets, tombstone or
  empty, without scanning on. With \<open>0\<close> in slot 0 and \<open>32\<close> in slot 1, removing \<open>0\<close>
  and inserting \<open>32\<close> again claims slot 0 and reports an insertion: the key is stored
  twice and the count is 2.
\<close>

theorem scalar_stable_insert_duplicates_behind_tombstone:
  "map_sum id (\<lambda>(m, rs). (summary m, rs))
     (runOps (Suc 0) scalarBuild (emptyMap :: (64 word, nat) FlatHashMap)
        [OpInsert 0 10, OpInsert 32 20, OpRemove 0, OpInsert 32 30])
   = Inr ((32, 2, [(32, 30), (32, 20)]),
          [IteratorInserted 0 True, IteratorInserted 1 True, Removed True,
           IteratorInserted 0 True])"
  by (simp add: scalar_run)

text \<open>
  Claim C5: the scalar and the vectorised strategy return the same results for the same
  sequence of operations. They do not: for the sequence insert \<open>0\<close>, insert \<open>2^57\<close>,
  find \<open>2^57\<close> the scalar build ends with \<open>end()\<close> (the iterator 32) and the vectorised
  build with slot 1.
\<close>

theorem scalar_and_vectorised_results_differ:
  "map_sum id snd
     (runOps (Suc 0) scalarBuild (emptyMap :: (64 word, nat) FlatHashMap)
        [OpInsert 0 10, OpInsert (push_bit 57 1) 20, OpFind (push_bit 57 1)])
   = Inr [IteratorInserted 0 True, IteratorInserted 1 True, Iterator 32]
   \<and> map_sum id snd
     (runOps (Suc 0) simdBuild (emptyMap :: (64 word, nat) FlatHashMap)
        [OpInsert 0 10, OpInsert (push_bit 57 1) 20, OpFind (push_bit 57 1)])
   = Inr [IteratorInserted 0 True, IteratorInserted 1 True, Iterator 1]"
  by (simp add: scalar_run simd_run)

text \<open>
  Claim C6: with vectorised probing the control buffer is padded past the capacity and the
  capacity is rounded up to the batch alignment, so that no batch load leaves the buffer.
  The two constants are chosen the other way round: in the vectorised build the alignment
  is 1 and the padding 0 (the scalar build gets 16 and 16). A requested capacity of 20
  stays 20, the buffer of a table of 32 slots has 32 bytes, and the first insertion of a
  key with probe index 31 loads the 16 bytes from 31 on, past the end of the buffer.
\<close>

theorem vectorised_build_reads_past_control_buffer:
  "kControlAlignment simdBuild = 1
   \<and> kControlBufferPadding simdBuild = 0
   \<and> kControlAlignment scalarBuild = 16
   \<and> kControlBufferPadding scalarBuild = 16
   \<and> m_capacity (construct simdBuild 20 :: (64 word, nat) FlatHashMap) = 20
   \<and> length (m_controlBuffer (construct simdBuild 32 :: (64 word, nat) FlatHashMap)) = 32
   \<and> load_unaligned simdBuild (construct simdBuild 32 :: (64 word, nat) FlatHashMap) 31
       = Inl OutOfBounds
   \<and> Insert (Suc 0) simdBuild (emptyMap :: (64 word, nat) FlatHashMap) (31, 7)
       = Inl OutOfBounds"
  by (simp add: scalar_run simd_run)

text \<open>
  Claim C7: after a stable insertion the count is at most 0.7 of the capacity, in every
  reachable state. In the scalar build \<open>Find\<close> can return a tombstoned slot (claim C3),
  so \<open>Remove\<close> decrements the count for a key that is not there. Removing \<open>32\<close> three
  times after one insertion of it wraps the count of the table, which still holds \<open>0\<close>,
  around to \<open>2^64 - 1\<close>; the next stable insertion computes \<open>m_count + 1 = 0\<close>, does
  not grow, and leaves the count at \<open>2^64 - 1\<close> with capacity 32. The second run shows
  the occupancy itself passing the bound: the count lags behind, and after the last
  insertion 12 of 16 slots are occupied.
\<close>

theorem load_factor_bound_broken_after_insert:
  "map_sum id (\<lambda>(m, rs). (m_capacity m, m_count m, rs))
     (runOps (Suc 0) scalarBuild (emptyMap :: (64 word, nat) FlatHashMap)
        [OpInsert 0 10, OpInsert 32 20, OpRemove 32, OpRemove 32, OpRemove 32, OpInsert 0 11])
   = Inr (32, 18446744073709551615,
          [IteratorInserted 0 True, IteratorInserted 1 True, Removed True, Removed True,
           Removed True, IteratorInserted 0 False])
   \<and> map_sum id (\<lambda>(m, rs). (m_capacity m, m_count m, length (entries m)))
     (runOps (Suc 0) scalarBuild (construct scalarBuild 16 :: (64 word, nat) FlatHashMap)
        [OpInsert 0 100, OpInsert 16 116, OpRemove 16, OpRemove 16, OpInsert 16 116,
         OpInsert 2 102, OpInsert 3 103, OpInsert 4 104, OpInsert 5 105, OpInsert 6 106,
         OpInsert 7 107, OpInsert 8 108, OpInsert 9 109, OpInsert 10 110, OpInsert 11 111])
   = Inr (16, 11, 12)"
  by (simp add: scalar_run)

text \<open>
  Claim C8: \<open>Remove(k)\<close> returns true exactly when \<open>k\<close> was present. In the scalar
  build it also returns true for a key that was removed before: with \<open>0\<close> in slot 0 and
  the tombstone of \<open>32\<close> in slot 1, the table holds the pair of \<open>0\<close> only and has
  count 1, and \<open>Remove(32)\<close> returns true and sets the count to 0, the pair of \<open>0\<close>
  still being there.
\<close>

theorem scalar_Remove_succeeds_on_absent_key:
  "(case runOps (Suc 0) scalarBuild (emptyMap :: (64 word, nat) FlatHashMap)
          [OpInsert 0 10, OpInsert 32 20, OpRemove 32] of
      Inl e \<Rightarrow> None
    | Inr (m, rs) \<Rightarrow>
        Some (summary m, map_sum id (\<lambda>(m', removed). (removed, summary m')) (Remove scalarBuild m 32)))
   = Some ((32, 1, [(0, 10)]), Inr (True, (32, 0, [(0, 10)])))"
  by (simp add: scalar_run)

text \<open>
  Claim C9: \<open>Defragment\<close> leaves no tombstone, keeps the set of key-value pairs and keeps
  the capacity. The temporary map is filled with \<open>EmplaceUnstable\<close>, whose load-factor
  check grows it when more than 0.7 of the slots get occupied. In the scalar build the
  count can lag behind the occupancy (claims C3 and C8), so a table of capacity 16 comes to
  hold 12 pairs with count 11; defragmenting it yields the same pairs in a table of
  capacity 32.
\<close>

theorem Defragment_changes_capacity:
  "(case runOps (Suc 0) scalarBuild (construct scalarBuild 16 :: (64 word, nat) FlatHashMap)
          [OpInsert 0 100, OpInsert 16 116, OpRemove 16, OpRemove 16, OpInsert 16 116,
           OpInsert 2 102, OpInsert 3 103, OpInsert 4 104, OpInsert 5 105, OpInsert 6 106,
           OpInsert 7 107, OpInsert 8 108, OpInsert 9 109, OpInsert 10 110, OpInsert 11 111] of
      Inl e \<Rightarrow> None
    | Inr (m, rs) \<Rightarrow> Some (summary m, map_sum id summary (Defragment (Suc 0) scalarBuild m)))
   = Some ((16, 11, [(0, 100), (16, 116), (2, 102), (3, 103), (4, 104), (5, 105), (6, 106),
                     (7, 107), (8, 108), (9, 109), (10, 110), (11, 111)]),
           Inr (32, 12, [(0, 100), (2, 102), (3, 103), (4, 104), (5, 105), (6, 106), (7, 107),
                         (8, 108), (9, 109), (10, 110), (11, 111), (16, 116)]))"
  by (simp add: scalar_run)

text \<open>
  Claim C10: on a map of capacity 0, \<open>Find\<close> and \<open>Remove\<close> compute \<open>hash % 0\<close>
  for every key, in every build: there is no miss path for the empty map. The insertion
  path grows the map to 32 slots (rounded up to the control alignment) before it derives
  the probe index, so it does not divide by zero when the alignment is positive; in a
  scalar build the insertion into the empty map succeeds at the probe index.
\<close>

theorem capacity_zero_Find_and_Remove_divide_by_zero:
  assumes "m_capacity m = 0"
  shows "Find b m key = Inl DivisionByZero
    \<and> Remove b m key = Inl DivisionByZero
    \<and> FindAndAllocateSlot depth b fast m key
        = probeAndAllocate b fast (GrowInitial b m 32) key
    \<and> (0 < kControlAlignment b \<longrightarrow>
          32 \<le> m_capacity (GrowInitial b m 32)
          \<and> Insert depth b m (key, v) \<noteq> Inl DivisionByZero)
    \<and> (\<not> kUseSimd b \<and> 0 < archAlignment b \<longrightarrow>
          (\<exists>m'. Insert depth b m (key, v)
                   = Inr (m', unat (hashOf b key) mod AlignUp 32 (archAlignment b), True)
                 \<and> m_capacity m' = AlignUp 32 (archAlignment b)
                 \<and> kvpAt m' (unat (hashOf b key) mod AlignUp 32 (archAlignment b)) = Inr (key, v)
                 \<and> m_count m' = 1))"
proof -
  have find: "Find b m key = Inl DivisionByZero"
    using assms by (simp add: Find_def)
  then have remove: "Remove b m key = Inl DivisionByZero"
    by (simp add: Remove_def)
  have grown: "32 \<le> m_capacity (GrowInitial b m 32)" if "0 < kControlAlignment b"
    using AlignUp_ge [OF that, of 32] by (simp add: GrowInitial_capacity)
  show ?thesis
    using find remove grown FindAndAllocateSlot_capacity_zero [OF assms]
      Insert_capacity_zero_no_div [OF assms] Insert_capacity_zero_scalar [OF assms]
    by blast
qed

theorem capacity_zero_Find_and_Remove_divide_by_zero_witness:
  "m_capacity (emptyMap :: (64 word, nat) FlatHashMap) = 0
   \<and> Find scalarBuild (emptyMap :: (64 word, nat) FlatHashMap) 7 = Inl DivisionByZero
   \<and> Remove scalarBuild (emptyMap :: (64 word, nat) FlatHashMap) 7 = Inl DivisionByZero
   \<and> 0 < kControlAlignment scalarBuild
   \<and> \<not> kUseSimd scalarBuild
   \<and> 0 < archAlignment scalarBuild
   \<and> Insert 0 scalarBuild (emptyMap :: (64 word, nat) FlatHashMap) (7, 1) \<noteq> Inl DivisionByZero
   \<and> (\<exists>m'. Insert 0 scalarBuild (emptyMap :: (64 word, nat) FlatHashMap) (7, 1) = Inr (m', 7, True)
         \<and> m_capacity m' = 32 \<and> kvpAt m' 7 = Inr (7, 1) \<and> m_count m' = 1)"
proof -
  have z: "m_capacity (emptyMap :: (64 word, nat) FlatHashMap) = 0"
    by (simp add: emptyMap_def)
  have a: "0 < kControlAlignment scalarBuild" "\<not> kUseSimd scalarBuild"
    "0 < archAlignment scalarBuild" "hashOf scalarBuild 7 = 7" "archAlignment scalarBuild = 16"
    by (simp_all add: scalarBuild_def kControlAlignment_def)
  have r: "unat (7 :: 64 word) mod AlignUp 32 16 = 7" "AlignUp 32 16 = 32"
    by (simp_all add: AlignUp_def)
  show ?thesis
    using capacity_zero_Find_and_Remove_divide_by_zero
      [OF z, of scalarBuild 7 0 False 1] a
    by (simp add: z r)
qed

end
